theory Spec2Isabelle
  imports Complex_Main
begin

section \<open>Values of the Python runtime\<close>

text \<open>
  A Python float is a finite value, an infinity or NaN. Finite doubles are embedded in
  the reals; rounding to the nearest double is not modelled.
\<close>

datatype pyfloat = Finite real | PosInf | NegInf | NaN

text \<open>
  A cell of a row served by \<^verbatim>\<open>df.iterrows()\<close>: text of an object column, a value of a
  float64, int64 or bool column, or \<^verbatim>\<open>None\<close>, which \<^verbatim>\<open>row.get\<close> gives for a column
  the frame does not have. A missing value of the file is the float NaN.
\<close>

datatype cell = PyNone | CStr string | CFloat pyfloat | CInt int | CBool bool

type_synonym row = "string \<rightharpoonup> cell"

definition row_get :: "row \<Rightarrow> string \<Rightarrow> cell" where
  "row_get r k = (case r k of None \<Rightarrow> PyNone | Some c \<Rightarrow> c)"

text \<open>\<^verbatim>\<open>pd.isna\<close> on a scalar: true for \<^verbatim>\<open>None\<close> and for NaN.\<close>

definition isna :: "cell \<Rightarrow> bool" where
  "isna c = (case c of PyNone \<Rightarrow> True | CFloat x \<Rightarrow> x = NaN | _ \<Rightarrow> False)"

text \<open>
  The builtins \<^verbatim>\<open>float\<close> (on text) and \<^verbatim>\<open>str\<close> (on numbers) belong to the interpreter,
  not to the repository, so they are parameters of the model: \<open>float_of_text s = None\<close>
  stands for \<^verbatim>\<open>ValueError\<close>.
\<close>

record python =
  float_of_text :: "string \<Rightarrow> pyfloat option"
  str_of_float :: "pyfloat \<Rightarrow> string"
  str_of_int :: "int \<Rightarrow> string"

datatype py_error = ValueError | TypeError

definition py_float :: "python \<Rightarrow> cell \<Rightarrow> py_error + pyfloat" where
  "py_float py c =
     (case c of
        PyNone \<Rightarrow> Inl TypeError
      | CStr s \<Rightarrow> (case float_of_text py s of None \<Rightarrow> Inl ValueError | Some x \<Rightarrow> Inr x)
      | CFloat x \<Rightarrow> Inr x
      | CInt i \<Rightarrow> Inr (Finite (of_int i))
      | CBool b \<Rightarrow> Inr (Finite (if b then 1 else 0)))"

definition py_str :: "python \<Rightarrow> cell \<Rightarrow> string" where
  "py_str py c =
     (case c of
        PyNone \<Rightarrow> ''None''
      | CStr s \<Rightarrow> s
      | CFloat x \<Rightarrow> str_of_float py x
      | CInt i \<Rightarrow> str_of_int py i
      | CBool b \<Rightarrow> (if b then ''True'' else ''False''))"

text \<open>
  \<^verbatim>\<open>str.strip()\<close>. The file is decoded as latin-1, so every character is one of the 256
  code points a \<open>char\<close> holds; \<^verbatim>\<open>str.isspace\<close> is true on these of them.
\<close>

definition isspace :: "char \<Rightarrow> bool" where
  "isspace c = ((of_char c :: nat) \<in> {9, 10, 11, 12, 13, 28, 29, 30, 31, 32, 133, 160})"

definition strip :: "string \<Rightarrow> string" where
  "strip s = rev (dropWhile isspace (rev (dropWhile isspace s)))"

section \<open>The products table and the connection\<close>

record product =
  product_id :: nat
  product_name :: string
  description :: "string option"
  price :: pyfloat
  category :: "string option"
  image_url :: "string option"

text \<open>
  The table with the counter that \<^verbatim>\<open>AUTOINCREMENT\<close> keeps (the largest id ever given).
  A database is \<open>None\<close> while it has no \<^verbatim>\<open>products\<close> table.
\<close>

record table =
  rows :: "product list"
  seq :: nat

type_synonym database = "table option"

definition stored :: "database \<Rightarrow> product list" where
  "stored db = (case db of None \<Rightarrow> [] | Some t \<Rightarrow> rows t)"

text \<open>\<^verbatim>\<open>CREATE TABLE IF NOT EXISTS products (...)\<close>\<close>

definition create_table :: "database \<Rightarrow> database" where
  "create_table db = (case db of None \<Rightarrow> Some \<lparr>rows = [], seq = 0\<rparr> | Some t \<Rightarrow> Some t)"

text \<open>
  \<^verbatim>\<open>INSERT INTO products (product_name, description, price, category, image_url)\<close>:
  the row gets the next id. Without the table the statement raises (\<open>None\<close>). So it
  does for a price that is NaN: the engine stores a NaN it is given as \<^verbatim>\<open>NULL\<close>, which the
  column \<^verbatim>\<open>price REAL NOT NULL\<close> of the script's table refuses. The name is always text.
\<close>

definition insert_into :: "database \<Rightarrow> string \<Rightarrow> string option \<Rightarrow> pyfloat \<Rightarrow> string option
    \<Rightarrow> string option \<Rightarrow> database option" where
  "insert_into db n d p c u =
     (case db of
        None \<Rightarrow> None
      | Some t \<Rightarrow>
          if p = NaN then None
          else Some (Some \<lparr>rows = rows t @ [\<lparr>product_id = Suc (seq t), product_name = n,
            description = d, price = p, category = c, image_url = u\<rparr>], seq = Suc (seq t)\<rparr>))"

text \<open>
  A connection holds the committed database and the one its open transaction sees.
  The module opens a transaction before an \<^verbatim>\<open>INSERT\<close> and not before \<^verbatim>\<open>CREATE TABLE\<close>,
  which therefore takes effect at once.
\<close>

record connection =
  committed :: database
  working :: database

definition connect :: "database \<Rightarrow> connection" where
  "connect db = \<lparr>committed = db, working = db\<rparr>"

definition execute_create :: "connection \<Rightarrow> connection" where
  "execute_create c = \<lparr>committed = create_table (committed c), working = create_table (working c)\<rparr>"

definition commit :: "connection \<Rightarrow> connection" where
  "commit c = c\<lparr>committed := working c\<rparr>"

definition rollback :: "connection \<Rightarrow> connection" where
  "rollback c = c\<lparr>working := committed c\<rparr>"

definition close :: "connection \<Rightarrow> database" where
  "close c = committed c"

section \<open>The importer (\<^verbatim>\<open>Server/import_products.py\<close>)\<close>

text \<open>What \<^verbatim>\<open>pd.read_csv\<close> does: it raises, or returns a frame (columns and rows).\<close>

datatype read_csv_result =
    FileNotFoundError
  | EmptyDataError
  | ReadException
  | DataFrame "string list" "row list"

text \<open>
  The world outside the script: the file as pandas reads it, and where the database
  engine raises. \<open>insert_raises i n p\<close> holds when the \<^verbatim>\<open>INSERT\<close> of name \<open>n\<close> and price
  \<open>p\<close> for the row of index \<open>i\<close> raises for a reason the script has no part in (a full
  disk, a locked file); what the table of the script itself refuses is in \<open>insert_into\<close>.
  \<^verbatim>\<open>ReadException\<close> stands for every other exception of \<^verbatim>\<open>pd.read_csv\<close>.
\<close>

record world =
  read_csv :: read_csv_result
  connect_raises :: bool
  create_raises :: bool
  insert_raises :: "nat \<Rightarrow> string \<Rightarrow> pyfloat \<Rightarrow> bool"
  commit_raises :: bool

text \<open>
  One constructor for each message the script prints; the three lines that frame the
  column names are one message, and the text of the exception is left out.
\<close>

datatype message =
    MsgRead nat
  | MsgColumns "string list"
  | MsgTableEnsured
  | MsgSkipDescription nat
  | MsgSkipPriceMissing nat
  | MsgSkipPriceInvalid nat cell
  | MsgSkipPriceType nat
  | MsgCompleted
  | MsgImported nat
  | MsgSkipped nat
  | MsgFileNotFound
  | MsgEnsureFile
  | MsgEmptyFile
  | MsgUnexpected
  | MsgReview
  | MsgRolledBack

record run_state =
  conn :: connection
  imported_count :: nat
  skipped_count :: nat
  out :: "message list"

text \<open>The body of the loop either raises, in the state it had reached, or goes on.\<close>

datatype flow = Raised run_state | Normal run_state

definition skip_row :: "run_state \<Rightarrow> message \<Rightarrow> flow" where
  "skip_row st m = Normal (st\<lparr>skipped_count := skipped_count st + 1, out := out st @ [m]\<rparr>)"

definition process_row :: "python \<Rightarrow> world \<Rightarrow> run_state \<Rightarrow> nat \<times> row \<Rightarrow> flow" where
  "process_row py w st ir =
     (let index = fst ir;
          product_name_from_csv = row_get (snd ir) ''Description'';
          price_from_csv = row_get (snd ir) ''UnitPrice''
      in if isna product_name_from_csv \<or> strip (py_str py product_name_from_csv) = []
         then skip_row st (MsgSkipDescription index)
         else if isna price_from_csv
         then skip_row st (MsgSkipPriceMissing index)
         else (case py_float py price_from_csv of
                 Inl ValueError \<Rightarrow> skip_row st (MsgSkipPriceInvalid index price_from_csv)
               | Inl TypeError \<Rightarrow> skip_row st (MsgSkipPriceType index)
               | Inr price_value \<Rightarrow>
                   (if insert_raises w index (strip (py_str py product_name_from_csv)) price_value
                    then Raised st
                    else (case insert_into (working (conn st))
                                 (strip (py_str py product_name_from_csv)) None price_value None None of
                            None \<Rightarrow> Raised st
                          | Some db' \<Rightarrow>
                              Normal (st\<lparr>conn := (conn st)\<lparr>working := db'\<rparr>,
                                         imported_count := imported_count st + 1\<rparr>)))))"

fun process_rows :: "python \<Rightarrow> world \<Rightarrow> run_state \<Rightarrow> (nat \<times> row) list \<Rightarrow> flow" where
  "process_rows py w st [] = Normal st"
| "process_rows py w st (ir # rest) =
     (case process_row py w st ir of
        Raised st' \<Rightarrow> Raised st'
      | Normal st' \<Rightarrow> process_rows py w st' rest)"

text \<open>\<^verbatim>\<open>df.iterrows()\<close> with the default index \<open>0, 1, 2, ...\<close>\<close>

definition iterrows :: "row list \<Rightarrow> (nat \<times> row) list" where
  "iterrows rs = zip [0..<length rs] rs"

text \<open>The handler of \<^verbatim>\<open>except Exception\<close> followed by \<^verbatim>\<open>finally\<close>, once a connection is open.\<close>

definition abort :: "connection \<Rightarrow> message list \<Rightarrow> database \<times> message list" where
  "abort c msgs = (close (rollback c), msgs @ [MsgUnexpected, MsgReview, MsgRolledBack])"

definition import_products :: "python \<Rightarrow> world \<Rightarrow> database \<Rightarrow> database \<times> message list" where
  "import_products py w db =
     (case read_csv w of
        FileNotFoundError \<Rightarrow> (db, [MsgFileNotFound, MsgEnsureFile])
      | EmptyDataError \<Rightarrow> (db, [MsgEmptyFile])
      | ReadException \<Rightarrow> (db, [MsgUnexpected, MsgReview])
      | DataFrame columns df \<Rightarrow>
          (let msgs = [MsgRead (length df), MsgColumns columns]
           in if connect_raises w then (db, msgs @ [MsgUnexpected, MsgReview])
              else if create_raises w then abort (connect db) msgs
              else (case process_rows py w
                           \<lparr>conn = execute_create (connect db), imported_count = 0,
                            skipped_count = 0, out = msgs @ [MsgTableEnsured]\<rparr> (iterrows df) of
                      Raised st \<Rightarrow> abort (conn st) (out st)
                    | Normal st \<Rightarrow>
                        (if commit_raises w then abort (conn st) (out st)
                         else (close (commit (conn st)),
                               out st @ [MsgCompleted, MsgImported (imported_count st)]
                                 @ (if 0 < skipped_count st then [MsgSkipped (skipped_count st)]
                                    else []))))))"

section \<open>Rows the importer accepts\<close>

text \<open>
  The name and the price the script binds to the \<^verbatim>\<open>INSERT\<close> of a row:
  \<^verbatim>\<open>str(product_name_from_csv).strip()\<close> and \<^verbatim>\<open>float(price_from_csv)\<close>.
\<close>

definition name_of :: "python \<Rightarrow> row \<Rightarrow> string" where
  "name_of py r = strip (py_str py (row_get r ''Description''))"

definition price_of :: "python \<Rightarrow> row \<Rightarrow> pyfloat" where
  "price_of py r = projr (py_float py (row_get r ''UnitPrice''))"

text \<open>
  A valid row, in the words of the specification: a \<^verbatim>\<open>Description\<close> that is present and
  not empty once trimmed, and a \<^verbatim>\<open>UnitPrice\<close> that is present and parses as a number.
\<close>

definition valid_row :: "python \<Rightarrow> row \<Rightarrow> bool" where
  "valid_row py r =
     (\<not> isna (row_get r ''Description'')
      \<and> strip (py_str py (row_get r ''Description'')) \<noteq> []
      \<and> \<not> isna (row_get r ''UnitPrice'')
      \<and> \<not> isl (py_float py (row_get r ''UnitPrice'')))"

text \<open>The record a valid row is stored as, under the id \<open>k\<close>.\<close>

definition record_of :: "python \<Rightarrow> nat \<Rightarrow> row \<Rightarrow> product" where
  "record_of py k r =
     \<lparr>product_id = k, product_name = name_of py r, description = None,
      price = price_of py r, category = None, image_url = None\<rparr>"

text \<open>The records of the valid rows of a frame, numbered from the id after \<open>s\<close>.\<close>

definition imported_records :: "python \<Rightarrow> nat \<Rightarrow> row list \<Rightarrow> product list" where
  "imported_records py s df =
     map (\<lambda>(k, r). record_of py k r) (enumerate (Suc s) (filter (valid_row py) df))"

text \<open>The message printed for a row that is not valid, and those of a list of rows.\<close>

definition skip_message :: "python \<Rightarrow> nat \<Rightarrow> row \<Rightarrow> message" where
  "skip_message py i r =
     (if isna (row_get r ''Description'') \<or> strip (py_str py (row_get r ''Description'')) = []
      then MsgSkipDescription i
      else if isna (row_get r ''UnitPrice'') then MsgSkipPriceMissing i
      else if py_float py (row_get r ''UnitPrice'') = Inl TypeError then MsgSkipPriceType i
      else MsgSkipPriceInvalid i (row_get r ''UnitPrice''))"

definition skip_log :: "python \<Rightarrow> (nat \<times> row) list \<Rightarrow> message list" where
  "skip_log py irs =
     map (\<lambda>(i, r). skip_message py i r) (filter (\<lambda>(i, r). \<not> valid_row py r) irs)"

text \<open>
  The row of index \<open>i\<close> is valid and its \<^verbatim>\<open>INSERT\<close> raises: the world makes the engine
  raise, or the price is NaN.
\<close>

definition insert_fails :: "python \<Rightarrow> world \<Rightarrow> nat \<Rightarrow> row \<Rightarrow> bool" where
  "insert_fails py w i r =
     (valid_row py r
      \<and> (insert_raises w i (name_of py r) (price_of py r) \<or> price_of py r = NaN))"

definition last_id :: "database \<Rightarrow> nat" where
  "last_id db = (case db of None \<Rightarrow> 0 | Some t \<Rightarrow> seq t)"

text \<open>A world that makes the database engine raise nowhere.\<close>

definition sound_world :: "read_csv_result \<Rightarrow> world" where
  "sound_world f = \<lparr>read_csv = f, connect_raises = False, create_raises = False,
     insert_raises = (\<lambda>i n p. False), commit_raises = False\<rparr>"

section \<open>The token verification endpoint (\<^verbatim>\<open>Server/app.py\<close>)\<close>

text \<open>
  JSON as Python holds it after parsing. An object is the list of the items of the
  \<^verbatim>\<open>dict\<close>; a lookup takes the first item of a key.
\<close>

datatype json =
    JNull
  | JBool bool
  | JInt int
  | JFloat pyfloat
  | JStr string
  | JArr "json list"
  | JObj "(string \<times> json) list"

text \<open>The truth value Python gives a parsed value in \<^verbatim>\<open>if not token\<close>.\<close>

definition truthy :: "json \<Rightarrow> bool" where
  "truthy j =
     (case j of
        JNull \<Rightarrow> False
      | JBool b \<Rightarrow> b
      | JInt i \<Rightarrow> i \<noteq> 0
      | JFloat x \<Rightarrow> x \<noteq> Finite 0
      | JStr s \<Rightarrow> s \<noteq> []
      | JArr xs \<Rightarrow> xs \<noteq> []
      | JObj kvs \<Rightarrow> kvs \<noteq> [])"

text \<open>
  \<^verbatim>\<open>x.get(k, d)\<close>: the value of the key or the default on a \<^verbatim>\<open>dict\<close>; on anything else
  the attribute is missing and Python raises \<^verbatim>\<open>AttributeError\<close> (\<open>None\<close>).
\<close>

definition py_get :: "json \<Rightarrow> string \<Rightarrow> json \<Rightarrow> json option" where
  "py_get x k d =
     (case x of
        JObj kvs \<Rightarrow> Some (case map_of kvs k of None \<Rightarrow> d | Some v \<Rightarrow> v)
      | _ \<Rightarrow> None)"

text \<open>\<^verbatim>\<open>verify_data.get("user", {}).get(k, d)\<close>\<close>

definition user_field :: "json \<Rightarrow> string \<Rightarrow> json \<Rightarrow> json option" where
  "user_field verify_data k d =
     (case py_get verify_data ''user'' (JObj []) of
        None \<Rightarrow> None
      | Some user \<Rightarrow> py_get user k d)"

text \<open>
  What \<^verbatim>\<open>requests.post\<close> does: it raises, or returns a response with its status code, its
  text and what \<^verbatim>\<open>response.json()\<close> gives (\<open>None\<close> when that raises).
\<close>

datatype post_result = PostRaises | Response int string "json option"

definition internal_error :: "int \<times> json" where
  "internal_error = (500, JObj [(''message'', JStr ''Internal server error'')])"

text \<open>
  The handler, from what \<^verbatim>\<open>request.get_json()\<close> gives (\<open>None\<close> when it raises) and the
  verification service as a function of the token posted to it, to the status and the
  body of the reply.
\<close>

definition otpless_verify :: "json option \<Rightarrow> (json \<Rightarrow> post_result) \<Rightarrow> int \<times> json" where
  "otpless_verify request_json post =
     (case request_json of
        None \<Rightarrow> internal_error
      | Some data \<Rightarrow>
          (case py_get data ''otplessToken'' JNull of
             None \<Rightarrow> internal_error
           | Some token \<Rightarrow>
               if \<not> truthy token then (400, JObj [(''message'', JStr ''Missing otplessToken'')])
               else (case post token of
                       PostRaises \<Rightarrow> internal_error
                     | Response status_code body_text verify_json \<Rightarrow>
                         if status_code \<noteq> 200
                         then (401, JObj [(''message'', JStr ''Otpless token verification failed''),
                                          (''details'', JStr body_text)])
                         else (case verify_json of
                                 None \<Rightarrow> internal_error
                               | Some verify_data \<Rightarrow>
                                   (case user_field verify_data ''name'' (JStr ''UpLyft User'') of
                                      None \<Rightarrow> internal_error
                                    | Some name \<Rightarrow>
                                   (case user_field verify_data ''email'' (JStr []) of
                                      None \<Rightarrow> internal_error
                                    | Some email \<Rightarrow>
                                   (case user_field verify_data ''mobile'' (JStr []) of
                                      None \<Rightarrow> internal_error
                                    | Some mobile \<Rightarrow>
                                        (200, JObj [(''token'', JStr ''dummy-auth-token-for-demo''),
                                                    (''user'', JObj [(''name'', name),
                                                                     (''email'', email),
                                                                     (''mobile'', mobile)])]))))))))"

section \<open>The example of the specification\<close>

text \<open>
  The source with the rows \<^verbatim>\<open>("Blue Mug", "2.50")\<close>, \<^verbatim>\<open>("", "3.00")\<close>,
  \<^verbatim>\<open>("Red Pen", "abc")\<close>, \<^verbatim>\<open>("Green Pencil", "")\<close>. pandas reads an empty field as NaN
  and, because of \<^verbatim>\<open>abc\<close>, keeps the prices as text.
\<close>

definition example_rows :: "row list" where
  "example_rows =
     [[''Description'' \<mapsto> CStr ''Blue Mug'', ''UnitPrice'' \<mapsto> CStr ''2.50''],
      [''Description'' \<mapsto> CFloat NaN, ''UnitPrice'' \<mapsto> CStr ''3.00''],
      [''Description'' \<mapsto> CStr ''Red Pen'', ''UnitPrice'' \<mapsto> CStr ''abc''],
      [''Description'' \<mapsto> CStr ''Green Pencil'', ''UnitPrice'' \<mapsto> CFloat NaN]]"

definition example_frame :: read_csv_result where
  "example_frame = DataFrame [''Description'', ''UnitPrice''] example_rows"

text \<open>
  The builtins on the values of the examples: \<^verbatim>\<open>float("2.50")\<close> is 2.5, \<^verbatim>\<open>float("3.00")\<close>
  is 3.0, \<^verbatim>\<open>float("NAN")\<close> is NaN and \<^verbatim>\<open>float("abc")\<close> raises \<^verbatim>\<open>ValueError\<close>; \<^verbatim>\<open>str\<close> of NaN
  is \<^verbatim>\<open>nan\<close>. The examples apply them to nothing else.
\<close>

definition example_python :: python where
  "example_python =
     \<lparr>float_of_text = map_of [(''2.50'', Finite 2.5), (''3.00'', Finite 3), (''NAN'', NaN)],
      str_of_float = (\<lambda>x. ''nan''),
      str_of_int = (\<lambda>i. ''0'')\<rparr>"

section \<open>Further sources\<close>

text \<open>
  A source whose third row is valid, in a world where the engine raises on the
  \<^verbatim>\<open>INSERT\<close> of that row, and a table left by an earlier run.
\<close>

definition faulty_rows :: "row list" where
  "faulty_rows =
     [[''Description'' \<mapsto> CStr ''Blue Mug'', ''UnitPrice'' \<mapsto> CStr ''2.50''],
      [''Description'' \<mapsto> CFloat NaN, ''UnitPrice'' \<mapsto> CStr ''3.00''],
      [''Description'' \<mapsto> CStr '' Red Pen '', ''UnitPrice'' \<mapsto> CStr ''3.00'']]"

definition faulty_world :: world where
  "faulty_world = \<lparr>read_csv = DataFrame [''Description'', ''UnitPrice''] faulty_rows,
     connect_raises = False, create_raises = False,
     insert_raises = (\<lambda>i n p. i = 2), commit_raises = False\<rparr>"

definition earlier_table :: database where
  "earlier_table = Some \<lparr>rows = [\<lparr>product_id = 1, product_name = ''Lamp'', description = None,
       price = Finite 12, category = None, image_url = None\<rparr>], seq = 1\<rparr>"

text \<open>
  A source whose price column pandas read as numbers, \<open>-1.5\<close> and \<^verbatim>\<open>inf\<close>, and the price the
  specification asks of a record: finite and not negative.
\<close>

definition refund_rows :: "row list" where
  "refund_rows =
     [[''Description'' \<mapsto> CStr ''Refund'', ''UnitPrice'' \<mapsto> CFloat (Finite (- 1.5))],
      [''Description'' \<mapsto> CStr ''Gold'', ''UnitPrice'' \<mapsto> CFloat PosInf]]"

definition acceptable_price :: "pyfloat \<Rightarrow> bool" where
  "acceptable_price p = (case p of Finite x \<Rightarrow> 0 \<le> x | _ \<Rightarrow> False)"

text \<open>
  A source with one row, which is valid, and a source in which the price of the third
  row is the text \<^verbatim>\<open>NAN\<close>. pandas takes \<^verbatim>\<open>NaN\<close> and \<^verbatim>\<open>nan\<close> for missing values but not \<^verbatim>\<open>NAN\<close>,
  which therefore reaches the script as text, like the other prices of its column.
\<close>

definition single_rows :: "row list" where
  "single_rows = [[''Description'' \<mapsto> CStr ''Blue Mug'', ''UnitPrice'' \<mapsto> CStr ''2.50'']]"

definition nan_rows :: "row list" where
  "nan_rows =
     [[''Description'' \<mapsto> CStr ''Blue Mug'', ''UnitPrice'' \<mapsto> CStr ''2.50''],
      [''Description'' \<mapsto> CStr ''Red Pen'', ''UnitPrice'' \<mapsto> CStr ''abc''],
      [''Description'' \<mapsto> CStr ''Ghost'', ''UnitPrice'' \<mapsto> CStr ''NAN'']]"

definition nan_frame :: read_csv_result where
  "nan_frame = DataFrame [''Description'', ''UnitPrice''] nan_rows"

section \<open>One row\<close>

lemma process_row_invalid:
  assumes "\<not> valid_row py r"
  shows "process_row py w st (i, r) = skip_row st (skip_message py i r)"
proof (cases "isna (row_get r ''Description'') \<or> strip (py_str py (row_get r ''Description'')) = []")
  case True
  then show ?thesis
    by (simp add: process_row_def skip_message_def)
next
  case no_desc: False
  show ?thesis
  proof (cases "isna (row_get r ''UnitPrice'')")
    case True
    with no_desc show ?thesis
      by (simp add: process_row_def skip_message_def)
  next
    case False
    with no_desc assms obtain e where e: "py_float py (row_get r ''UnitPrice'') = Inl e"
      by (auto simp: valid_row_def isl_def)
    with no_desc False show ?thesis
      by (cases e) (simp_all add: process_row_def skip_message_def)
  qed
qed

lemma process_row_valid:
  assumes "valid_row py r"
  shows "process_row py w st (i, r) =
     (if insert_fails py w i r then Raised st
      else case working (conn st) of
             None \<Rightarrow> Raised st
           | Some t \<Rightarrow>
               Normal (st\<lparr>conn := (conn st)\<lparr>working :=
                             Some \<lparr>rows = rows t @ [record_of py (Suc (seq t)) r],
                                   seq = Suc (seq t)\<rparr>\<rparr>,
                           imported_count := imported_count st + 1\<rparr>))"
proof -
  from assms obtain v where v: "py_float py (row_get r ''UnitPrice'') = Inr v"
    by (cases "py_float py (row_get r ''UnitPrice'')") (auto simp: valid_row_def)
  with assms show ?thesis
    by (auto simp: valid_row_def process_row_def record_of_def insert_into_def name_of_def
        price_of_def insert_fails_def Let_def split: option.splits)
qed

lemma process_row_Raised_same: "process_row py w st ir = Raised s \<Longrightarrow> s = st"
proof (cases ir)
  case (Pair i r)
  assume "process_row py w st ir = Raised s"
  with Pair show ?thesis
    by (cases "valid_row py r")
       (auto simp: process_row_invalid process_row_valid skip_row_def
             split: if_splits option.splits)
qed

section \<open>The loop\<close>

lemma imported_records_Nil: "imported_records py s [] = []"
  by (simp add: imported_records_def)

lemma imported_records_Cons:
  "imported_records py s (r # df) =
     (if valid_row py r then record_of py (Suc s) r # imported_records py (Suc s) df
      else imported_records py s df)"
  by (simp add: imported_records_def)

lemma length_imported_records:
  "length (imported_records py s df) = length (filter (valid_row py) df)"
  by (simp add: imported_records_def)

lemma skip_log_Nil: "skip_log py [] = []"
  by (simp add: skip_log_def)

lemma skip_log_Cons:
  "skip_log py ((i, r) # irs) =
     (if valid_row py r then skip_log py irs else skip_message py i r # skip_log py irs)"
  by (simp add: skip_log_def)

lemma length_skip_log:
  "length (skip_log py irs) = length (filter (\<lambda>r. \<not> valid_row py r) (map snd irs))"
  by (induction irs) (auto simp: skip_log_Nil skip_log_Cons)

lemma process_rows_Normal:
  assumes "process_rows py w st irs = Normal st'" and "working (conn st) = Some t"
  shows "committed (conn st') = committed (conn st)
       \<and> working (conn st') =
           Some \<lparr>rows = rows t @ imported_records py (seq t) (map snd irs),
                 seq = seq t + length (filter (valid_row py) (map snd irs))\<rparr>
       \<and> imported_count st' = imported_count st + length (filter (valid_row py) (map snd irs))
       \<and> skipped_count st' =
           skipped_count st + length (filter (\<lambda>r. \<not> valid_row py r) (map snd irs))
       \<and> out st' = out st @ skip_log py irs"
  using assms
proof (induction irs arbitrary: st t)
  case Nil
  then show ?case by (simp add: imported_records_Nil skip_log_Nil)
next
  case (Cons ir rest)
  obtain i r where ir: "ir = (i, r)" by (cases ir)
  show ?case
  proof (cases "valid_row py r")
    case False
    define st1 where
      "st1 = st\<lparr>skipped_count := skipped_count st + 1, out := out st @ [skip_message py i r]\<rparr>"
    have run: "process_rows py w st1 rest = Normal st'"
      using Cons.prems(1) False by (simp add: ir process_row_invalid skip_row_def st1_def)
    have w1: "working (conn st1) = Some t"
      using Cons.prems(2) by (simp add: st1_def)
    from Cons.IH[OF run w1] False show ?thesis
      by (simp add: ir st1_def imported_records_Cons skip_log_Cons)
  next
    case True
    let ?t1 = "\<lparr>rows = rows t @ [record_of py (Suc (seq t)) r], seq = Suc (seq t)\<rparr>"
    define st1 where "st1 = st\<lparr>conn := (conn st)\<lparr>working := Some ?t1\<rparr>,
        imported_count := imported_count st + 1\<rparr>"
    have step: "process_row py w st (i, r) = Normal st1"
    proof (cases "insert_fails py w i r")
      case True
      with \<open>valid_row py r\<close> have "process_row py w st (i, r) = Raised st"
        by (simp add: process_row_valid)
      with Cons.prems(1) show ?thesis by (simp add: ir)
    next
      case False
      with \<open>valid_row py r\<close> Cons.prems(2) show ?thesis
        by (simp add: process_row_valid st1_def)
    qed
    have run: "process_rows py w st1 rest = Normal st'"
      using Cons.prems(1) step by (simp add: ir)
    have w1: "working (conn st1) = Some ?t1" by (simp add: st1_def)
    from Cons.IH[OF run w1] True show ?thesis
      by (simp add: ir st1_def imported_records_Cons skip_log_Cons)
  qed
qed

lemma process_rows_completes:
  assumes "\<forall>(i, r) \<in> set irs. \<not> insert_fails py w i r" and "working (conn st) = Some t"
  shows "\<exists>st'. process_rows py w st irs = Normal st'"
  using assms
proof (induction irs arbitrary: st t)
  case Nil
  then show ?case by simp
next
  case (Cons ir rest)
  obtain i r where ir: "ir = (i, r)" by (cases ir)
  from Cons.prems(1) have rest: "\<forall>(i, r) \<in> set rest. \<not> insert_fails py w i r" by simp
  show ?case
  proof (cases "valid_row py r")
    case False
    have "working (conn (st\<lparr>skipped_count := skipped_count st + 1,
        out := out st @ [skip_message py i r]\<rparr>)) = Some t"
      using Cons.prems(2) by simp
    from Cons.IH[OF rest this] False show ?thesis
      by (simp add: ir process_row_invalid skip_row_def)
  next
    case True
    with Cons.prems(1) have ok: "\<not> insert_fails py w i r"
      by (simp add: ir)
    let ?st1 = "st\<lparr>conn := (conn st)\<lparr>working :=
        Some \<lparr>rows = rows t @ [record_of py (Suc (seq t)) r], seq = Suc (seq t)\<rparr>\<rparr>,
        imported_count := imported_count st + 1\<rparr>"
    have "working (conn ?st1) =
        Some \<lparr>rows = rows t @ [record_of py (Suc (seq t)) r], seq = Suc (seq t)\<rparr>"
      by simp
    from Cons.IH[OF rest this] True ok Cons.prems(2) show ?thesis
      by (simp add: ir process_row_valid)
  qed
qed

lemma process_rows_append:
  "process_rows py w st (xs @ ys) =
     (case process_rows py w st xs of
        Raised s \<Rightarrow> Raised s
      | Normal s \<Rightarrow> process_rows py w s ys)"
  by (induction xs arbitrary: st) (auto split: flow.splits)

section \<open>The index of the rows\<close>

lemma map_snd_iterrows: "map snd (iterrows df) = df"
  by (simp add: iterrows_def)

lemma take_iterrows: "take k (iterrows df) = iterrows (take k df)"
  by (simp add: iterrows_def take_zip min_def)

lemma iterrows_nth: "k < length df \<Longrightarrow> iterrows df ! k = (k, df ! k)"
  by (simp add: iterrows_def)

lemma in_set_iterrows: "(i, r) \<in> set (iterrows df) \<longleftrightarrow> i < length df \<and> r = df ! i"
proof
  assume "(i, r) \<in> set (iterrows df)"
  then show "i < length df \<and> r = df ! i"
    by (auto simp: iterrows_def in_set_zip)
next
  assume "i < length df \<and> r = df ! i"
  then have "iterrows df ! i = (i, r)" "i < length (iterrows df)"
    by (simp_all add: iterrows_def)
  then show "(i, r) \<in> set (iterrows df)"
    by (metis nth_mem)
qed

section \<open>The run\<close>

lemma create_table_Some: "create_table db = Some \<lparr>rows = stored db, seq = last_id db\<rparr>"
  by (cases db) (simp_all add: create_table_def stored_def last_id_def)

lemma stored_create_table: "stored (create_table db) = stored db"
  by (simp add: create_table_Some stored_def)

lemma last_id_create_table: "last_id (create_table db) = last_id db"
  by (simp add: create_table_Some last_id_def)

lemma import_products_frame:
  assumes "read_csv w = DataFrame columns df" "\<not> connect_raises w" "\<not> create_raises w"
  shows "import_products py w db =
     (case process_rows py w
             \<lparr>conn = \<lparr>committed = create_table db, working = create_table db\<rparr>,
              imported_count = 0, skipped_count = 0,
              out = [MsgRead (length df), MsgColumns columns, MsgTableEnsured]\<rparr> (iterrows df) of
        Raised st \<Rightarrow> (committed (conn st), out st @ [MsgUnexpected, MsgReview, MsgRolledBack])
      | Normal st \<Rightarrow>
          (if commit_raises w
           then (committed (conn st), out st @ [MsgUnexpected, MsgReview, MsgRolledBack])
           else (working (conn st),
                 out st @ [MsgCompleted, MsgImported (imported_count st)]
                   @ (if 0 < skipped_count st then [MsgSkipped (skipped_count st)] else []))))"
  using assms
  by (simp add: import_products_def abort_def close_def rollback_def commit_def connect_def
      execute_create_def split: flow.splits)

lemma import_products_complete:
  assumes "read_csv w = DataFrame columns df" "\<not> connect_raises w" "\<not> create_raises w"
    and "\<not> commit_raises w" and "\<forall>i<length df. \<not> insert_fails py w i (df ! i)"
  shows "import_products py w db =
     (Some \<lparr>rows = stored db @ imported_records py (last_id db) df,
            seq = last_id db + length (filter (valid_row py) df)\<rparr>,
      [MsgRead (length df), MsgColumns columns, MsgTableEnsured] @ skip_log py (iterrows df)
        @ [MsgCompleted, MsgImported (length (filter (valid_row py) df))]
        @ (if 0 < length (filter (\<lambda>r. \<not> valid_row py r) df)
           then [MsgSkipped (length (filter (\<lambda>r. \<not> valid_row py r) df))] else []))"
proof -
  let ?st0 = "\<lparr>conn = \<lparr>committed = create_table db, working = create_table db\<rparr>,
              imported_count = 0, skipped_count = 0,
              out = [MsgRead (length df), MsgColumns columns, MsgTableEnsured]\<rparr>"
  have w0: "working (conn ?st0) = Some \<lparr>rows = stored db, seq = last_id db\<rparr>"
    by (simp add: create_table_Some)
  have "\<forall>(i, r) \<in> set (iterrows df). \<not> insert_fails py w i r"
    using assms(5) by (auto simp: in_set_iterrows)
  from process_rows_completes[OF this w0] obtain st' where
    run: "process_rows py w ?st0 (iterrows df) = Normal st'" by blast
  from process_rows_Normal[OF run w0] assms(4) show ?thesis
    by (simp add: import_products_frame[OF assms(1-3)] run map_snd_iterrows)
qed

lemma process_rows_Raised_out:
  assumes "process_rows py w st irs = Raised st'"
  shows "\<exists>k. out st' = out st @ skip_log py (take k irs)
           \<and> committed (conn st') = committed (conn st)"
  using assms
proof (induction irs arbitrary: st)
  case Nil
  then show ?case by simp
next
  case (Cons ir rest)
  obtain i r where ir: "ir = (i, r)" by (cases ir)
  show ?case
  proof (cases "process_row py w st ir")
    case (Raised s)
    with Cons.prems have "s = st'" by simp
    moreover from Raised have "s = st" by (rule process_row_Raised_same)
    ultimately have "out st' = out st @ skip_log py (take 0 (ir # rest))
        \<and> committed (conn st') = committed (conn st)"
      by (simp add: skip_log_Nil)
    then show ?thesis by blast
  next
    case (Normal s)
    with Cons.prems have run: "process_rows py w s rest = Raised st'" by simp
    from Cons.IH[OF run] obtain k where
      k: "out st' = out s @ skip_log py (take k rest)" "committed (conn st') = committed (conn s)"
      by blast
    have s: "committed (conn s) = committed (conn st)
        \<and> out s = out st @ skip_log py [(i, r)]"
      using Normal
      by (cases "valid_row py r")
         (auto simp: ir process_row_invalid process_row_valid skip_row_def skip_log_Cons
            skip_log_Nil split: if_splits option.splits)
    have "skip_log py (take (Suc k) (ir # rest)) = skip_log py [(i, r)] @ skip_log py (take k rest)"
      by (simp add: ir skip_log_Cons skip_log_Nil)
    with k s have "out st' = out st @ skip_log py (take (Suc k) (ir # rest))
        \<and> committed (conn st') = committed (conn st)"
      by simp
    then show ?thesis by blast
  qed
qed

section \<open>Counts of a run\<close>

lemma sound_world_no_insert_fails:
  assumes "\<forall>r \<in> set df. valid_row py r \<longrightarrow> price_of py r \<noteq> NaN"
  shows "\<forall>i<length df. \<not> insert_fails py (sound_world f) i (df ! i)"
  using assms by (auto simp: insert_fails_def sound_world_def)

lemma example_prices:
  "\<forall>r \<in> set example_rows. valid_row example_python r \<longrightarrow> price_of example_python r \<noteq> NaN"
  by (simp add: example_rows_def example_python_def valid_row_def price_of_def row_get_def
      isna_def py_str_def py_float_def strip_def isspace_def)

lemma example_valid_rows:
  "filter (valid_row example_python) example_rows =
     [[''Description'' \<mapsto> CStr ''Blue Mug'', ''UnitPrice'' \<mapsto> CStr ''2.50'']]"
  by (simp add: example_rows_def example_python_def valid_row_def row_get_def isna_def
      py_str_def py_float_def strip_def isspace_def)

lemma example_invalid_rows:
  "length (filter (\<lambda>r. \<not> valid_row example_python r) example_rows) = 3"
  by (simp add: example_rows_def example_python_def valid_row_def row_get_def isna_def
      py_str_def py_float_def strip_def isspace_def)

lemma example_skip_log:
  "skip_log example_python (iterrows example_rows) =
     [MsgSkipDescription 1, MsgSkipPriceInvalid 2 (CStr ''abc''), MsgSkipPriceMissing 3]"
  by (simp add: example_rows_def example_python_def valid_row_def row_get_def isna_def
      py_str_def py_float_def strip_def isspace_def skip_log_def skip_message_def iterrows_def
      upt_rec)

lemma length_example_rows: "length example_rows = 4"
  by (simp add: example_rows_def)

lemma example_records:
  "imported_records example_python 0 example_rows =
     [\<lparr>product_id = 1, product_name = ''Blue Mug'', description = None,
       price = Finite 2.5, category = None, image_url = None\<rparr>]"
  unfolding imported_records_def example_valid_rows
  by (simp add: record_of_def name_of_def price_of_def
      example_python_def row_get_def py_str_def py_float_def strip_def isspace_def)

lemma example_run:
  "import_products example_python (sound_world example_frame) None =
     (Some \<lparr>rows = [\<lparr>product_id = 1, product_name = ''Blue Mug'', description = None,
                      price = Finite 2.5, category = None, image_url = None\<rparr>], seq = 1\<rparr>,
      [MsgRead 4, MsgColumns [''Description'', ''UnitPrice''], MsgTableEnsured,
       MsgSkipDescription 1, MsgSkipPriceInvalid 2 (CStr ''abc''), MsgSkipPriceMissing 3,
       MsgCompleted, MsgImported 1, MsgSkipped 3])"
proof -
  have "import_products example_python (sound_world example_frame) None =
     (Some \<lparr>rows = stored None @ imported_records example_python (last_id None) example_rows,
            seq = last_id None + length (filter (valid_row example_python) example_rows)\<rparr>,
      [MsgRead (length example_rows), MsgColumns [''Description'', ''UnitPrice''], MsgTableEnsured]
        @ skip_log example_python (iterrows example_rows)
        @ [MsgCompleted, MsgImported (length (filter (valid_row example_python) example_rows))]
        @ (if 0 < length (filter (\<lambda>r. \<not> valid_row example_python r) example_rows)
           then [MsgSkipped (length (filter (\<lambda>r. \<not> valid_row example_python r) example_rows))]
           else []))"
    by (rule import_products_complete)
       (simp_all add: sound_world_def example_frame_def
          sound_world_no_insert_fails[OF example_prices, unfolded sound_world_def])
  then show ?thesis
    by (simp add: example_valid_rows example_invalid_rows example_skip_log example_records
        length_example_rows stored_def last_id_def)
qed

lemma single_run:
  "import_products example_python
       (sound_world (DataFrame [''Description'', ''UnitPrice''] single_rows)) None =
     (Some \<lparr>rows = [\<lparr>product_id = 1, product_name = ''Blue Mug'', description = None,
                      price = Finite 2.5, category = None, image_url = None\<rparr>], seq = 1\<rparr>,
      [MsgRead 1, MsgColumns [''Description'', ''UnitPrice''], MsgTableEnsured,
       MsgCompleted, MsgImported 1])"
  by (simp add: import_products_def sound_world_def single_rows_def iterrows_def process_row_def
      row_get_def isna_def py_str_def py_float_def strip_def isspace_def example_python_def
      connect_def execute_create_def create_table_def insert_into_def commit_def close_def)

lemma nan_run:
  "import_products example_python (sound_world nan_frame) db =
     (create_table db,
      [MsgRead 3, MsgColumns [''Description'', ''UnitPrice''], MsgTableEnsured,
       MsgSkipPriceInvalid 1 (CStr ''abc''), MsgUnexpected, MsgReview, MsgRolledBack])"
  by (cases db)
     (simp_all add: import_products_def sound_world_def nan_frame_def nan_rows_def iterrows_def
        process_row_def skip_row_def row_get_def isna_def py_str_def py_float_def strip_def
        isspace_def example_python_def connect_def execute_create_def create_table_def
        insert_into_def abort_def rollback_def close_def upt_rec)

lemma nan_rows_valid:
  "valid_row example_python (nan_rows ! 0)"
  "\<not> valid_row example_python (nan_rows ! 1)"
  "valid_row example_python (nan_rows ! 2)"
  "py_float example_python (row_get (nan_rows ! 0) ''UnitPrice'') = Inr (Finite 2.5)"
  "py_float example_python (row_get (nan_rows ! 2) ''UnitPrice'') = Inr NaN"
  by (simp_all add: nan_rows_def example_python_def valid_row_def row_get_def isna_def
      py_str_def py_float_def strip_def isspace_def)

text \<open>
  C1 as stated fails, twice. The script prints the skip count under the guard
  \<^verbatim>\<open>if skipped_count > 0\<close>: for a source with one valid row and no invalid row the run
  completes and its output holds no skip count. And a valid row whose price converts to
  NaN makes its \<^verbatim>\<open>INSERT\<close> raise: for the source with the price \<^verbatim>\<open>NAN\<close> the run is rolled
  back, stores nothing and prints no count, although the row \<^verbatim>\<open>Blue Mug\<close> at 2.50 is valid.
\<close>

theorem skip_count_not_reported:
  "snd (import_products example_python
       (sound_world (DataFrame [''Description'', ''UnitPrice''] single_rows)) None) =
     [MsgRead 1, MsgColumns [''Description'', ''UnitPrice''], MsgTableEnsured,
      MsgCompleted, MsgImported 1]
   \<and> length (filter (valid_row example_python) nan_rows) = 2
   \<and> import_products example_python (sound_world nan_frame) None =
       (Some \<lparr>rows = [], seq = 0\<rparr>,
        [MsgRead 3, MsgColumns [''Description'', ''UnitPrice''], MsgTableEnsured,
         MsgSkipPriceInvalid 1 (CStr ''abc''), MsgUnexpected, MsgReview, MsgRolledBack])"
proof -
  have "length (filter (valid_row example_python) nan_rows) = 2"
    by (simp add: nan_rows_def example_python_def valid_row_def row_get_def isna_def
        py_str_def py_float_def strip_def isspace_def)
  then show ?thesis
    by (simp add: single_run nan_run create_table_def)
qed

text \<open>
  C1, as the code has it. pandas returns a frame and nothing raises in the database:
  not the connection, the table or the commit, and not the \<^verbatim>\<open>INSERT\<close> of a row of the frame,
  which raises for a valid row whose price converts to NaN. Then a run over a source
  with \<open>N\<close> valid and \<open>M\<close> invalid rows leaves in the table the records that were there
  followed by the \<open>N\<close> records of the valid rows, prints one skip message for each of the
  \<open>M\<close> invalid rows, and closes its output with the imported count \<open>N\<close> and, when \<open>M\<close> is
  positive, the skip count \<open>M\<close>; when \<open>M\<close> is zero it prints no skip count.
\<close>

theorem import_products_counts:
  assumes "read_csv w = DataFrame columns df"
    and "\<not> connect_raises w" and "\<not> create_raises w" and "\<not> commit_raises w"
    and "\<forall>i<length df. \<not> insert_fails py w i (df ! i)"
    and "N = length (filter (valid_row py) df)"
    and "M = length (filter (\<lambda>r. \<not> valid_row py r) df)"
  shows "stored (fst (import_products py w db)) = stored db @ imported_records py (last_id db) df
       \<and> length (imported_records py (last_id db) df) = N
       \<and> snd (import_products py w db) =
           [MsgRead (length df), MsgColumns columns, MsgTableEnsured] @ skip_log py (iterrows df)
             @ [MsgCompleted, MsgImported N] @ (if 0 < M then [MsgSkipped M] else [])
       \<and> length (skip_log py (iterrows df)) = M"
proof -
  from import_products_complete[OF assms(1-5)] assms(6,7) show ?thesis
    by (simp add: stored_def length_imported_records length_skip_log map_snd_iterrows)
qed

text \<open>
  The example of the specification: of the four rows only \<^verbatim>\<open>Blue Mug\<close> at 2.50 is stored,
  and the skip count is 3.
\<close>

theorem import_products_counts_example:
  "stored (fst (import_products example_python (sound_world example_frame) None)) =
     [\<lparr>product_id = 1, product_name = ''Blue Mug'', description = None,
       price = Finite 2.5, category = None, image_url = None\<rparr>]
   \<and> snd (import_products example_python (sound_world example_frame) None) =
       [MsgRead 4, MsgColumns [''Description'', ''UnitPrice''], MsgTableEnsured,
        MsgSkipDescription 1, MsgSkipPriceInvalid 2 (CStr ''abc''), MsgSkipPriceMissing 3,
        MsgCompleted, MsgImported 1, MsgSkipped 3]"
  using import_products_counts[where w = "sound_world example_frame"
      and columns = "[''Description'', ''UnitPrice'']" and df = example_rows
      and py = example_python and N = 1 and M = 3 and db = None]
  using sound_world_no_insert_fails[OF example_prices, of example_frame]
  by (simp add: sound_world_def example_frame_def example_valid_rows example_invalid_rows
      example_skip_log example_records length_example_rows stored_def last_id_def)

section \<open>Every row is counted once\<close>

lemma skip_log_no_summary: "MsgCompleted \<notin> set (skip_log py irs)"
  by (auto simp: skip_log_def skip_message_def split: if_splits)

text \<open>
  C10. In a run that reaches the completion message, every row of the frame is counted
  once: the table grows by \<open>n\<close> records, \<open>m\<close> skip messages are printed, the summary
  reports \<open>n\<close> imported and (when positive) \<open>m\<close> skipped, and \<open>n + m\<close> is the number of
  rows read.
\<close>

theorem import_products_accounts_for_rows:
  assumes "read_csv w = DataFrame columns df"
    and "MsgCompleted \<in> set (snd (import_products py w db))"
  shows "\<exists>n m. n + m = length df
       \<and> length (stored (fst (import_products py w db))) = length (stored db) + n
       \<and> length (skip_log py (iterrows df)) = m
       \<and> snd (import_products py w db) =
           [MsgRead (length df), MsgColumns columns, MsgTableEnsured] @ skip_log py (iterrows df)
             @ [MsgCompleted, MsgImported n] @ (if 0 < m then [MsgSkipped m] else [])"
proof -
  let ?st0 = "\<lparr>conn = \<lparr>committed = create_table db, working = create_table db\<rparr>,
              imported_count = 0, skipped_count = 0,
              out = [MsgRead (length df), MsgColumns columns, MsgTableEnsured]\<rparr>"
  have w0: "working (conn ?st0) = Some \<lparr>rows = stored db, seq = last_id db\<rparr>"
    by (simp add: create_table_Some)
  have c: "\<not> connect_raises w"
    using assms by (auto simp: import_products_def)
  have cr: "\<not> create_raises w"
    using assms c by (auto simp: import_products_def abort_def)
  note frame = import_products_frame[OF assms(1) c cr, of py db]
  show ?thesis
  proof (cases "process_rows py w ?st0 (iterrows df)")
    case (Raised st)
    from process_rows_Raised_out[OF Raised] assms(2) frame Raised show ?thesis
      by (auto simp: skip_log_no_summary)
  next
    case (Normal st)
    note facts = process_rows_Normal[OF Normal w0]
    have cm: "\<not> commit_raises w"
      using assms(2) frame Normal facts by (auto simp: skip_log_no_summary)
    let ?n = "length (filter (valid_row py) df)"
    let ?m = "length (filter (\<lambda>r. \<not> valid_row py r) df)"
    have "?n + ?m = length df"
      by (rule sum_length_filter_compl)
    moreover have "length (stored (fst (import_products py w db))) = length (stored db) + ?n"
      using frame Normal facts cm
      by (simp add: stored_def length_imported_records map_snd_iterrows)
    moreover have "length (skip_log py (iterrows df)) = ?m"
      by (simp add: length_skip_log map_snd_iterrows)
    moreover have "snd (import_products py w db) =
           [MsgRead (length df), MsgColumns columns, MsgTableEnsured] @ skip_log py (iterrows df)
             @ [MsgCompleted, MsgImported ?n] @ (if 0 < ?m then [MsgSkipped ?m] else [])"
      using frame Normal facts cm by (simp add: map_snd_iterrows)
    ultimately show ?thesis by blast
  qed
qed

theorem import_products_accounts_for_rows_example:
  "MsgCompleted \<in> set (snd (import_products example_python (sound_world example_frame) None))
   \<and> (\<exists>n m. n + m = length example_rows
         \<and> length (stored (fst (import_products example_python (sound_world example_frame) None)))
             = length (stored None) + n
         \<and> length (skip_log example_python (iterrows example_rows)) = m
         \<and> snd (import_products example_python (sound_world example_frame) None) =
             [MsgRead (length example_rows), MsgColumns [''Description'', ''UnitPrice''],
              MsgTableEnsured] @ skip_log example_python (iterrows example_rows)
               @ [MsgCompleted, MsgImported n] @ (if 0 < m then [MsgSkipped m] else []))"
proof -
  have r: "read_csv (sound_world example_frame)
      = DataFrame [''Description'', ''UnitPrice''] example_rows"
    by (simp add: sound_world_def example_frame_def)
  have c: "MsgCompleted \<in> set (snd (import_products example_python (sound_world example_frame) None))"
    by (simp add: example_run)
  from c import_products_accounts_for_rows[OF r c] show ?thesis
    by simp
qed

section \<open>Valid rows are stored\<close>

lemma record_in_imported_records:
  assumes "r \<in> set df" and "valid_row py r"
  shows "\<exists>k>s. record_of py k r \<in> set (imported_records py s df)"
proof -
  from assms have "r \<in> set (filter (valid_row py) df)" by simp
  then obtain j where j: "j < length (filter (valid_row py) df)" "filter (valid_row py) df ! j = r"
    by (metis in_set_conv_nth)
  then have "enumerate (Suc s) (filter (valid_row py) df) ! j = (Suc s + j, r)"
    by (simp add: nth_enumerate_eq)
  with j(1) have "(Suc s + j, r) \<in> set (enumerate (Suc s) (filter (valid_row py) df))"
    by (metis length_enumerate nth_mem)
  then have "record_of py (Suc s + j) r \<in> set (imported_records py s df)"
    by (force simp: imported_records_def)
  then show ?thesis
    by (intro exI[of _ "Suc s + j"]) simp
qed

lemma imported_records_from_rows:
  assumes "p \<in> set (imported_records py s df)"
  shows "\<exists>k r. r \<in> set df \<and> valid_row py r \<and> p = record_of py k r"
proof -
  from assms obtain k r where kr: "(k, r) \<in> set (enumerate (Suc s) (filter (valid_row py) df))"
    "p = record_of py k r"
    by (auto simp: imported_records_def)
  from kr(1) have "snd (k, r) \<in> snd ` set (enumerate (Suc s) (filter (valid_row py) df))"
    by (rule imageI)
  then have "r \<in> set (map snd (enumerate (Suc s) (filter (valid_row py) df)))"
    by (simp only: set_map snd_conv)
  then have "r \<in> set (filter (valid_row py) df)"
    by (simp only: map_snd_enumerate)
  with kr(2) show ?thesis by auto
qed

text \<open>
  Where nothing raises in the database, a row of the frame whose \<^verbatim>\<open>Description\<close> is present
  and not empty once trimmed and whose \<^verbatim>\<open>UnitPrice\<close> is present and converts to the number
  \<open>v\<close> is stored by the run: the table then holds, under an id larger than every id given
  before, a record whose name is the trimmed \<^verbatim>\<open>Description\<close> (for a text cell \<open>CStr d\<close>,
  \<open>py_str\<close> is \<open>d\<close> itself), whose price is \<open>v\<close> and whose description, category and image
  url are absent.
\<close>

lemma valid_row_imported:
  assumes "read_csv w = DataFrame columns df"
    and "\<not> connect_raises w" and "\<not> create_raises w" and "\<not> commit_raises w"
    and "\<forall>i<length df. \<not> insert_fails py w i (df ! i)"
    and "r \<in> set df"
    and "\<not> isna (row_get r ''Description'')"
    and "strip (py_str py (row_get r ''Description'')) \<noteq> []"
    and "\<not> isna (row_get r ''UnitPrice'')"
    and "py_float py (row_get r ''UnitPrice'') = Inr v"
  shows "\<exists>k>last_id db.
           \<lparr>product_id = k, product_name = strip (py_str py (row_get r ''Description'')),
            description = None, price = v, category = None, image_url = None\<rparr>
             \<in> set (stored (fst (import_products py w db)))"
proof -
  have valid: "valid_row py r"
    using assms(7-10) by (simp add: valid_row_def)
  from import_products_complete[OF assms(1-5)]
  have st: "stored (fst (import_products py w db)) = stored db @ imported_records py (last_id db) df"
    by (simp add: stored_def)
  from record_in_imported_records[OF assms(6) valid] obtain k where
    k: "last_id db < k" "record_of py k r \<in> set (imported_records py (last_id db) df)"
    by blast
  have "record_of py k r =
      \<lparr>product_id = k, product_name = strip (py_str py (row_get r ''Description'')),
       description = None, price = v, category = None, image_url = None\<rparr>"
    using assms(10) by (simp add: record_of_def name_of_def price_of_def)
  with k st show ?thesis by auto
qed

text \<open>
  C3 fails on the code. The script validates a row before the \<^verbatim>\<open>INSERT\<close> so that the
  \<^verbatim>\<open>NOT NULL\<close> columns are never refused (its own comment) and tests the price for NaN
  before it converts it, not after: the text \<^verbatim>\<open>NAN\<close> passes \<^verbatim>\<open>pd.isna\<close>, converts to NaN, and
  its \<^verbatim>\<open>INSERT\<close> raises. In the source below the row \<^verbatim>\<open>Blue Mug\<close> has a \<^verbatim>\<open>Description\<close> that is
  not empty and a \<^verbatim>\<open>UnitPrice\<close> that converts to 2.5, and so has the row \<^verbatim>\<open>Ghost\<close>, whose price
  converts to NaN; the run is rolled back on the third row and stores neither.
\<close>

theorem nan_price_loses_valid_rows:
  "valid_row example_python (nan_rows ! 0)
   \<and> py_float example_python (row_get (nan_rows ! 0) ''UnitPrice'') = Inr (Finite 2.5)
   \<and> valid_row example_python (nan_rows ! 2)
   \<and> py_float example_python (row_get (nan_rows ! 2) ''UnitPrice'') = Inr NaN
   \<and> stored (fst (import_products example_python (sound_world nan_frame) None)) = []
   \<and> snd (import_products example_python (sound_world nan_frame) None) =
       [MsgRead 3, MsgColumns [''Description'', ''UnitPrice''], MsgTableEnsured,
        MsgSkipPriceInvalid 1 (CStr ''abc''), MsgUnexpected, MsgReview, MsgRolledBack]"
  by (simp add: nan_rows_valid nan_run create_table_def stored_def)

section \<open>Invalid rows are skipped\<close>

text \<open>
  C4. A row whose \<^verbatim>\<open>Description\<close> is missing or empty once trimmed, or whose \<^verbatim>\<open>UnitPrice\<close> is
  missing or does not convert to a number, is skipped: the loop goes on with the rows
  that remain, from a state that differs from the one before the row only by a skip
  counter one larger and by the skip message of the row. The connection, and with it
  the table, and the imported counter are as before.
\<close>

theorem invalid_row_skipped:
  assumes "isna (row_get r ''Description'')
         \<or> strip (py_str py (row_get r ''Description'')) = []
         \<or> isna (row_get r ''UnitPrice'')
         \<or> isl (py_float py (row_get r ''UnitPrice''))"
  shows "process_rows py w st ((i, r) # rest) =
           process_rows py w
             (st\<lparr>skipped_count := skipped_count st + 1,
                 out := out st @ [skip_message py i r]\<rparr>) rest"
proof -
  from assms have "\<not> valid_row py r"
    by (auto simp: valid_row_def)
  then show ?thesis
    by (simp add: process_row_invalid skip_row_def)
qed

text \<open>
  A row whose \<^verbatim>\<open>Description\<close> is three spaces.
\<close>

theorem invalid_row_skipped_example:
  "process_rows example_python (sound_world example_frame)
       \<lparr>conn = connect None, imported_count = 0, skipped_count = 0, out = []\<rparr>
       [(7, [''Description'' \<mapsto> CStr ''   '', ''UnitPrice'' \<mapsto> CStr ''3.00''])] =
     Normal \<lparr>conn = connect None, imported_count = 0, skipped_count = 1,
             out = [MsgSkipDescription 7]\<rparr>"
  using invalid_row_skipped[where r = "[''Description'' \<mapsto> CStr ''   '', ''UnitPrice'' \<mapsto> CStr ''3.00'']"
      and py = example_python and w = "sound_world example_frame"
      and st = "\<lparr>conn = connect None, imported_count = 0, skipped_count = 0, out = []\<rparr>"
      and i = 7 and rest = "[]"]
  by (simp add: example_python_def row_get_def isna_def py_str_def strip_def isspace_def
      skip_message_def)

section \<open>Running twice\<close>

lemma imported_records_names_prices:
  "map (\<lambda>p. (product_name p, price p)) (imported_records py s df) =
     map (\<lambda>r. (name_of py r, price_of py r)) (filter (valid_row py) df)"
proof -
  have "map (\<lambda>p. (product_name p, price p)) (imported_records py s df) =
      map ((\<lambda>r. (name_of py r, price_of py r)) \<circ> snd) (enumerate (Suc s) (filter (valid_row py) df))"
    by (simp add: imported_records_def record_of_def case_prod_unfold comp_def)
  also have "\<dots> = map (\<lambda>r. (name_of py r, price_of py r))
      (map snd (enumerate (Suc s) (filter (valid_row py) df)))"
    by (simp only: map_map)
  also have "\<dots> = map (\<lambda>r. (name_of py r, price_of py r)) (filter (valid_row py) df)"
    by (simp only: map_snd_enumerate)
  finally show ?thesis .
qed

text \<open>
  Where nothing raises in the database, two runs over the same source, without clearing
  the table in between: the second run appends the records of the \<open>N\<close> valid rows again,
  under new ids and with the same names and prices, so the table holds \<open>2 * N\<close> records
  more than before the first run.
\<close>

lemma import_products_twice:
  assumes "read_csv w = DataFrame columns df"
    and "\<not> connect_raises w" and "\<not> create_raises w" and "\<not> commit_raises w"
    and "\<forall>i<length df. \<not> insert_fails py w i (df ! i)"
    and "N = length (filter (valid_row py) df)"
  shows "stored (fst (import_products py w (fst (import_products py w db)))) =
           stored db @ imported_records py (last_id db) df
             @ imported_records py (last_id db + N) df
       \<and> length (stored (fst (import_products py w (fst (import_products py w db))))) =
           length (stored db) + 2 * N
       \<and> map (\<lambda>p. (product_name p, price p)) (imported_records py (last_id db + N) df) =
           map (\<lambda>p. (product_name p, price p)) (imported_records py (last_id db) df)"
proof -
  note run = import_products_complete[OF assms(1-5)]
  have first: "fst (import_products py w db) =
      Some \<lparr>rows = stored db @ imported_records py (last_id db) df, seq = last_id db + N\<rparr>"
    by (simp add: run assms(6))
  have "stored (fst (import_products py w (fst (import_products py w db)))) =
           stored db @ imported_records py (last_id db) df
             @ imported_records py (last_id db + N) df"
    unfolding first by (simp add: run stored_def last_id_def)
  then show ?thesis
    by (simp add: length_imported_records assms(6) imported_records_names_prices)
qed

text \<open>
  C8 fails on the code, by the defect of C3: in the source with the price \<^verbatim>\<open>NAN\<close> the row
  \<^verbatim>\<open>Blue Mug\<close> at 2.50 is valid, yet each of the two runs is rolled back on the third
  row, and after both the table holds no record.
\<close>

theorem nan_price_twice_stores_nothing:
  "valid_row example_python (nan_rows ! 0)
   \<and> stored (fst (import_products example_python (sound_world nan_frame)
        (fst (import_products example_python (sound_world nan_frame) None)))) = []"
  by (simp add: nan_rows_valid nan_run create_table_def stored_def)

section \<open>Errors of the engine\<close>

lemma process_rows_prefix:
  assumes "k \<le> length df" and "\<forall>j<k. \<not> insert_fails py w j (df ! j)"
    and "working (conn st) = Some t"
  shows "\<exists>st'. process_rows py w st (take k (iterrows df)) = Normal st'
           \<and> committed (conn st') = committed (conn st)
           \<and> out st' = out st @ skip_log py (iterrows (take k df))"
proof -
  have "\<forall>(i, r) \<in> set (take k (iterrows df)). \<not> insert_fails py w i r"
    using assms(1,2) by (auto simp: take_iterrows in_set_iterrows)
  from process_rows_completes[OF this assms(3)] obtain st' where
    run: "process_rows py w st (take k (iterrows df)) = Normal st'" by blast
  from process_rows_Normal[OF run assms(3)] run show ?thesis
    by (simp add: take_iterrows)
qed

text \<open>
  C7. The connection is open and the table ensured; the rows before the index \<open>k\<close> are
  processed without an error, and then the engine raises: on the \<^verbatim>\<open>INSERT\<close> of row \<open>k\<close>, or,
  when \<open>k\<close> is the number of rows, on the commit. The run then prints the skip messages
  of the rows before \<open>k\<close> and nothing about a later row, prints the messages of the
  handler and no completion message, and returns the database as it was committed
  before the first \<^verbatim>\<open>INSERT\<close>: the records and the id counter of earlier runs, with none of
  the inserts of this run.
\<close>

theorem import_products_rolls_back:
  assumes "read_csv w = DataFrame columns df"
    and "\<not> connect_raises w" and "\<not> create_raises w"
    and "k \<le> length df"
    and "\<forall>j<k. \<not> insert_fails py w j (df ! j)"
    and "if k < length df then insert_fails py w k (df ! k) else commit_raises w"
  shows "import_products py w db =
           (create_table db,
            [MsgRead (length df), MsgColumns columns, MsgTableEnsured]
              @ skip_log py (iterrows (take k df))
              @ [MsgUnexpected, MsgReview, MsgRolledBack])
       \<and> stored (create_table db) = stored db
       \<and> last_id (create_table db) = last_id db"
proof -
  let ?st0 = "\<lparr>conn = \<lparr>committed = create_table db, working = create_table db\<rparr>,
              imported_count = 0, skipped_count = 0,
              out = [MsgRead (length df), MsgColumns columns, MsgTableEnsured]\<rparr>"
  have w0: "working (conn ?st0) = Some \<lparr>rows = stored db, seq = last_id db\<rparr>"
    by (simp add: create_table_Some)
  from process_rows_prefix[OF assms(4,5) w0] obtain st1 where
    st1: "process_rows py w ?st0 (take k (iterrows df)) = Normal st1"
      "committed (conn st1) = create_table db"
      "out st1 = [MsgRead (length df), MsgColumns columns, MsgTableEnsured]
          @ skip_log py (iterrows (take k df))"
    by auto
  note frame = import_products_frame[OF assms(1-3), of py db]
  have "import_products py w db =
           (create_table db,
            [MsgRead (length df), MsgColumns columns, MsgTableEnsured]
              @ skip_log py (iterrows (take k df))
              @ [MsgUnexpected, MsgReview, MsgRolledBack])"
  proof (cases "k < length df")
    case True
    with assms(6) have fails: "valid_row py (df ! k)" "insert_fails py w k (df ! k)"
      by (simp_all add: insert_fails_def)
    from True have "iterrows df = take k (iterrows df) @ (k, df ! k) # drop (Suc k) (iterrows df)"
      by (metis id_take_nth_drop iterrows_nth length_map map_snd_iterrows)
    then have "process_rows py w ?st0 (iterrows df) =
        process_rows py w st1 ((k, df ! k) # drop (Suc k) (iterrows df))"
      using st1(1) by (metis (no_types, lifting) process_rows_append flow.simps(6))
    also have "\<dots> = Raised st1"
      using fails by (simp add: process_row_valid)
    finally show ?thesis
      using st1 by (simp add: frame)
  next
    case False
    with assms(4,6) have k: "k = length df" "commit_raises w" by simp_all
    then have "take k (iterrows df) = iterrows df"
      by (simp add: iterrows_def)
    with st1 k show ?thesis
      by (simp add: frame)
  qed
  then show ?thesis
    by (simp add: stored_create_table last_id_create_table)
qed

lemma faulty_rows_facts:
  "length faulty_rows = 3"
  "valid_row example_python (faulty_rows ! 0)"
  "\<not> valid_row example_python (faulty_rows ! 1)"
  "valid_row example_python (faulty_rows ! 2)"
  "skip_log example_python (iterrows (take 2 faulty_rows)) = [MsgSkipDescription 1]"
  "price_of example_python (faulty_rows ! 0) = Finite 2.5"
  by (simp_all add: faulty_rows_def example_python_def valid_row_def row_get_def isna_def
      py_str_def py_float_def strip_def isspace_def skip_log_def skip_message_def iterrows_def
      price_of_def upt_rec)

text \<open>
  The first row is inserted, the second skipped, the \<^verbatim>\<open>INSERT\<close> of the third raises: the
  table of the earlier run comes back unchanged.
\<close>

theorem import_products_rolls_back_example:
  "import_products example_python faulty_world earlier_table =
     (earlier_table,
      [MsgRead 3, MsgColumns [''Description'', ''UnitPrice''], MsgTableEnsured,
       MsgSkipDescription 1, MsgUnexpected, MsgReview, MsgRolledBack])"
proof -
  have "\<not> insert_fails example_python faulty_world 0 (faulty_rows ! 0)"
    "\<not> insert_fails example_python faulty_world 1 (faulty_rows ! 1)"
    by (simp_all add: insert_fails_def faulty_world_def faulty_rows_def example_python_def
        valid_row_def price_of_def row_get_def isna_def py_str_def py_float_def strip_def
        isspace_def)
  then have "\<forall>j<2. \<not> insert_fails example_python faulty_world j (faulty_rows ! j)"
    by (auto dest!: less_2_cases)
  moreover have "if 2 < length faulty_rows
      then insert_fails example_python faulty_world 2 (faulty_rows ! 2)
      else commit_raises faulty_world"
    by (simp add: faulty_rows_facts insert_fails_def faulty_world_def)
  ultimately show ?thesis
    using import_products_rolls_back[where w = faulty_world
        and columns = "[''Description'', ''UnitPrice'']" and df = faulty_rows and k = 2
        and py = example_python and db = earlier_table]
    by (simp add: faulty_world_def faulty_rows_facts create_table_def earlier_table_def)
qed

section \<open>What a stored record satisfies\<close>

lemma import_products_database:
  "fst (import_products py w db) = db
   \<or> fst (import_products py w db) = create_table db
   \<or> (\<exists>columns df. read_csv w = DataFrame columns df
        \<and> fst (import_products py w db) =
            Some \<lparr>rows = stored db @ imported_records py (last_id db) df,
                  seq = last_id db + length (filter (valid_row py) df)\<rparr>)"
proof (cases "read_csv w")
  case (DataFrame columns df)
  show ?thesis
  proof (cases "connect_raises w \<or> create_raises w")
    case True
    with DataFrame have "fst (import_products py w db) = db"
      by (auto simp: import_products_def abort_def close_def rollback_def connect_def Let_def)
    then show ?thesis by simp
  next
    case False
    then have c: "\<not> connect_raises w" "\<not> create_raises w" by simp_all
    let ?st0 = "\<lparr>conn = \<lparr>committed = create_table db, working = create_table db\<rparr>,
              imported_count = 0, skipped_count = 0,
              out = [MsgRead (length df), MsgColumns columns, MsgTableEnsured]\<rparr>"
    have w0: "working (conn ?st0) = Some \<lparr>rows = stored db, seq = last_id db\<rparr>"
      by (simp add: create_table_Some)
    note frame = import_products_frame[OF DataFrame c, of py db]
    show ?thesis
    proof (cases "process_rows py w ?st0 (iterrows df)")
      case (Raised st)
      from process_rows_Raised_out[OF Raised] have "committed (conn st) = create_table db"
        by auto
      with Raised show ?thesis by (simp add: frame)
    next
      case (Normal st)
      from process_rows_Normal[OF Normal w0] Normal DataFrame show ?thesis
        by (simp add: frame map_snd_iterrows)
    qed
  qed
qed (simp_all add: import_products_def)

text \<open>
  C2, as the code has it. A record that a run adds to the table has a name that is not
  empty and no description, category or image url, and it comes from a row of the frame:
  its name is the trimmed \<^verbatim>\<open>Description\<close> of that row, which is present, and its price is
  what \<^verbatim>\<open>float\<close> makes of the \<^verbatim>\<open>UnitPrice\<close> of that row, which is present. So a row with a
  missing or empty \<^verbatim>\<open>Description\<close>, or a missing or unconvertible \<^verbatim>\<open>UnitPrice\<close>, is never
  stored. Nothing is said of the sign of the price, nor of its being finite: the script
  tests neither.
\<close>

theorem stored_record_from_valid_row:
  assumes "p \<in> set (stored (fst (import_products py w db)))" and "p \<notin> set (stored db)"
  shows "product_name p \<noteq> []
       \<and> description p = None \<and> category p = None \<and> image_url p = None
       \<and> (\<exists>columns df r. read_csv w = DataFrame columns df \<and> r \<in> set df
            \<and> \<not> isna (row_get r ''Description'')
            \<and> product_name p = strip (py_str py (row_get r ''Description''))
            \<and> \<not> isna (row_get r ''UnitPrice'')
            \<and> py_float py (row_get r ''UnitPrice'') = Inr (price p))"
proof -
  have "fst (import_products py w db) \<noteq> db"
    using assms by auto
  moreover have "fst (import_products py w db) \<noteq> create_table db"
    using assms by (auto simp: stored_create_table)
  ultimately obtain columns df where
    df: "read_csv w = DataFrame columns df"
      "fst (import_products py w db) =
         Some \<lparr>rows = stored db @ imported_records py (last_id db) df,
               seq = last_id db + length (filter (valid_row py) df)\<rparr>"
    using import_products_database[of py w db] by blast
  have "stored (fst (import_products py w db)) =
      stored db @ imported_records py (last_id db) df"
    unfolding df(2) by (simp add: stored_def)
  with assms have in_new: "p \<in> set (imported_records py (last_id db) df)"
    by simp
  from imported_records_from_rows[OF in_new] obtain k r where
    r: "r \<in> set df" "valid_row py r" "p = record_of py k r"
    by blast
  from r(2) obtain v where v: "py_float py (row_get r ''UnitPrice'') = Inr v"
    by (cases "py_float py (row_get r ''UnitPrice'')") (auto simp: valid_row_def)
  have "product_name p \<noteq> [] \<and> description p = None \<and> category p = None \<and> image_url p = None"
    using r(2,3) by (simp add: record_of_def name_of_def valid_row_def)
  moreover have "\<not> isna (row_get r ''Description'')
      \<and> product_name p = strip (py_str py (row_get r ''Description''))
      \<and> \<not> isna (row_get r ''UnitPrice'')
      \<and> py_float py (row_get r ''UnitPrice'') = Inr (price p)"
    using r(2,3) v by (simp add: record_of_def name_of_def price_of_def valid_row_def)
  ultimately show ?thesis
    using df(1) r(1) by blast
qed

lemma refund_run:
  "import_products example_python
       (sound_world (DataFrame [''Description'', ''UnitPrice''] refund_rows)) None =
     (Some \<lparr>rows = [\<lparr>product_id = 1, product_name = ''Refund'', description = None,
                      price = Finite (- 1.5), category = None, image_url = None\<rparr>,
                    \<lparr>product_id = 2, product_name = ''Gold'', description = None,
                      price = PosInf, category = None, image_url = None\<rparr>], seq = 2\<rparr>,
      [MsgRead 2, MsgColumns [''Description'', ''UnitPrice''], MsgTableEnsured,
       MsgCompleted, MsgImported 2])"
  by (simp add: import_products_def sound_world_def refund_rows_def iterrows_def process_row_def
      row_get_def isna_def py_str_def py_float_def strip_def isspace_def example_python_def
      connect_def execute_create_def create_table_def insert_into_def commit_def close_def
      upt_rec)

text \<open>
  C2 as stated fails: the script tests neither the sign of a price nor that it is
  finite. The rows \<^verbatim>\<open>Refund\<close> at \<open>-1.5\<close> and \<^verbatim>\<open>Gold\<close> at \<^verbatim>\<open>inf\<close> are stored with these prices.
\<close>

theorem negative_price_stored:
  "map price (stored (fst (import_products example_python
       (sound_world (DataFrame [''Description'', ''UnitPrice''] refund_rows)) None))) =
     [Finite (- 1.5), PosInf]
   \<and> \<not> acceptable_price (Finite (- 1.5)) \<and> \<not> acceptable_price PosInf"
  by (simp add: refund_run stored_def acceptable_price_def)

text \<open>
  The record of the row \<^verbatim>\<open>Refund\<close>.
\<close>

theorem stored_record_from_valid_row_example:
  "product_name \<lparr>product_id = 1, product_name = ''Refund'', description = None,
       price = Finite (- 1.5), category = None, image_url = None\<rparr> \<noteq> []
   \<and> (\<exists>columns df r.
        read_csv (sound_world (DataFrame [''Description'', ''UnitPrice''] refund_rows))
          = DataFrame columns df
        \<and> r \<in> set df
        \<and> \<not> isna (row_get r ''Description'')
        \<and> ''Refund'' = strip (py_str example_python (row_get r ''Description''))
        \<and> \<not> isna (row_get r ''UnitPrice'')
        \<and> py_float example_python (row_get r ''UnitPrice'') = Inr (Finite (- 1.5)))"
  using stored_record_from_valid_row[where py = example_python
      and w = "sound_world (DataFrame [''Description'', ''UnitPrice''] refund_rows)"
      and db = None
      and p = "\<lparr>product_id = 1, product_name = ''Refund'', description = None,
       price = Finite (- 1.5), category = None, image_url = None\<rparr>"]
  by (simp add: refund_run stored_def)

section \<open>An empty source\<close>

text \<open>
  C6 as stated fails: pandas raises \<^verbatim>\<open>EmptyDataError\<close> only for a file with no columns to
  parse. A file that holds a header line and no row is read as a frame without rows,
  and the run over it completes: the table is ensured, the loop has nothing to do, and
  the summary reports zero products imported.
\<close>

theorem header_only_source_completes:
  "import_products example_python (sound_world (DataFrame [''Description'', ''UnitPrice''] [])) None =
     (Some \<lparr>rows = [], seq = 0\<rparr>,
      [MsgRead 0, MsgColumns [''Description'', ''UnitPrice''], MsgTableEnsured,
       MsgCompleted, MsgImported 0])"
  by (simp add: import_products_def sound_world_def iterrows_def connect_def execute_create_def
      create_table_def commit_def close_def)

text \<open>
  C6, as the code has it. When \<^verbatim>\<open>pd.read_csv\<close> raises \<^verbatim>\<open>EmptyDataError\<close> the run prints
  the "file is empty" message and nothing else, and returns the database as it was. On a
  frame without rows, in a world where the engine raises nowhere, the run completes with
  zero products imported.
\<close>

theorem import_products_empty_source:
  "import_products py (w\<lparr>read_csv := EmptyDataError\<rparr>) db = (db, [MsgEmptyFile])
   \<and> import_products py (sound_world (DataFrame columns [])) db =
       (create_table db,
        [MsgRead 0, MsgColumns columns, MsgTableEnsured, MsgCompleted, MsgImported 0])"
  by (simp add: import_products_def sound_world_def iterrows_def connect_def execute_create_def
      commit_def close_def)

section \<open>The token verification endpoint\<close>

text \<open>
  C9 as stated fails: the service answers with status 200 and the body \<^verbatim>\<open>null\<close>; the
  lookup of \<^verbatim>\<open>user\<close> raises and the endpoint replies 500.
\<close>

theorem otpless_verify_null_body:
  "otpless_verify (Some (JObj [(''otplessToken'', JStr ''abc'')]))
       (\<lambda>token. Response 200 ''null'' (Some JNull)) =
     (500, JObj [(''message'', JStr ''Internal server error'')])"
  by (simp add: otpless_verify_def py_get_def truthy_def user_field_def internal_error_def)

text \<open>
  C9, as the code has it. The request carries a token that Python takes as true, the
  service answers with status 200 and a JSON object, and \<^verbatim>\<open>user\<close> in it is absent or is
  itself a JSON object. Then the endpoint replies 200 with the placeholder credential and
  a profile of exactly the fields \<^verbatim>\<open>name\<close>, \<^verbatim>\<open>email\<close> and \<^verbatim>\<open>mobile\<close>, each holding the value
  the service sent under that key, or, for an absent key, \<^verbatim>\<open>UpLyft User\<close> as the name and
  the empty string as the email and the mobile.
\<close>

theorem otpless_verify_profile:
  assumes "py_get data ''otplessToken'' JNull = Some token" and "truthy token"
    and "post token = Response 200 body_text (Some (JObj verify_data))"
    and "map_of verify_data ''user'' = None \<and> user = []
       \<or> map_of verify_data ''user'' = Some (JObj user)"
  shows "otpless_verify (Some data) post =
     (200, JObj [(''token'', JStr ''dummy-auth-token-for-demo''),
                 (''user'', JObj
                    [(''name'', case map_of user ''name'' of
                                  None \<Rightarrow> JStr ''UpLyft User'' | Some v \<Rightarrow> v),
                     (''email'', case map_of user ''email'' of None \<Rightarrow> JStr [] | Some v \<Rightarrow> v),
                     (''mobile'', case map_of user ''mobile'' of None \<Rightarrow> JStr [] | Some v \<Rightarrow> v)])])"
proof -
  have "user_field (JObj verify_data) k d =
      Some (case map_of user k of None \<Rightarrow> d | Some v \<Rightarrow> v)" for k d
    using assms(4) by (auto simp: user_field_def py_get_def)
  with assms(1-3) show ?thesis
    by (simp add: otpless_verify_def)
qed

text \<open>
  A service that sends only the email.
\<close>

theorem otpless_verify_profile_example:
  "otpless_verify (Some (JObj [(''otplessToken'', JStr ''abc'')]))
       (\<lambda>token. Response 200 []
          (Some (JObj [(''user'', JObj [(''email'', JStr ''a@b.c'')])]))) =
     (200, JObj [(''token'', JStr ''dummy-auth-token-for-demo''),
                 (''user'', JObj [(''name'', JStr ''UpLyft User''),
                                  (''email'', JStr ''a@b.c''),
                                  (''mobile'', JStr [])])])"
  using otpless_verify_profile[where data = "JObj [(''otplessToken'', JStr ''abc'')]"
      and token = "JStr ''abc''"
      and post = "\<lambda>token. Response 200 [] (Some (JObj [(''user'', JObj [(''email'', JStr ''a@b.c'')])]))"
      and body_text = "[]"
      and verify_data = "[(''user'', JObj [(''email'', JStr ''a@b.c'')])]"
      and user = "[(''email'', JStr ''a@b.c'')]"]
  by (simp add: py_get_def truthy_def)

section \<open>A missing source file\<close>

text \<open>
  C5. When \<^verbatim>\<open>pd.read_csv\<close> raises \<^verbatim>\<open>FileNotFoundError\<close>, the run prints the two lines of
  the "file not found" handler and nothing else, and the database is returned as it
  was: no record is stored and the table is neither created nor changed, whatever the
  engine would have done.
\<close>

theorem import_products_source_missing:
  "import_products py (w\<lparr>read_csv := FileNotFoundError\<rparr>) db = (db, [MsgFileNotFound, MsgEnsureFile])"
  by (simp add: import_products_def)

end
